theory Spec2Isabelle
  imports Complex_Main "HOL-Library.Sublist"
begin

section \<open>The KEV feed downloader (\<^verbatim>\<open>download_cisa_kev.py\<close>)\<close>

text \<open>
  The script has two functions: \<^verbatim>\<open>download\<close>, a bounded retry loop around
  \<^verbatim>\<open>urllib.request.urlopen\<close>, and \<^verbatim>\<open>main\<close>, which guards the destination,
  calls \<^verbatim>\<open>download\<close>, falls back to the certifi CA bundle on a certificate
  failure, parses the bytes as JSON and writes them back pretty-printed.

  Everything outside the script (the network, the CA files, the certifi package, the
  JSON parser, the file system) is a parameter of the model, collected in the record
  \<open>env\<close>. Everything the script does to the outside is logged, in order, in the
  \<open>trace\<close> of the \<open>world\<close> that each function takes and returns.
\<close>

subsection \<open>Exceptions\<close>

text \<open>
  The \<^verbatim>\<open>reason\<close> attribute of a \<^verbatim>\<open>URLError\<close>: \<^verbatim>\<open>None\<close>, a \<^verbatim>\<open>str\<close>, or another
  object (urllib stores the \<^verbatim>\<open>OSError\<close> it caught there), kept by its \<^verbatim>\<open>str()\<close>.
\<close>

datatype reason = NoReason | TextReason string | ErrorReason string

text \<open>
  The exceptions the script can meet, by the classes it tests with \<^verbatim>\<open>isinstance\<close>:
  \<^verbatim>\<open>ssl.SSLError\<close> (and its subclasses) with its text, \<^verbatim>\<open>urllib.error.URLError\<close>
  with its reason, its subclass \<^verbatim>\<open>HTTPError\<close> with code and message, the
  \<^verbatim>\<open>TypeError\<close> of a \<^verbatim>\<open>raise None\<close>, the \<^verbatim>\<open>ImportError\<close> of a missing module, and
  any other \<^verbatim>\<open>Exception\<close> with its text.
\<close>

datatype py_exc =
    SSLError string
  | URLError reason
  | HTTPError int string
  | TypeError string
  | ImportError string
  | OtherException string

text \<open>The only thing the script does with a caught \<^verbatim>\<open>ImportError\<close> is to print it,
  so it is kept by the name of the missing module.\<close>

fun isinstance_SSLError :: "py_exc \<Rightarrow> bool" where
  "isinstance_SSLError (SSLError _) = True"
| "isinstance_SSLError _ = False"

fun isinstance_URLError :: "py_exc \<Rightarrow> bool" where
  "isinstance_URLError (URLError _) = True"
| "isinstance_URLError (HTTPError _ _) = True"
| "isinstance_URLError _ = False"

text \<open>\<^verbatim>\<open>getattr(e, 'reason', None)\<close>: \<^verbatim>\<open>HTTPError.reason\<close> is the property returning
  the message; the other classes have no such attribute.\<close>

fun getattr_reason :: "py_exc \<Rightarrow> reason" where
  "getattr_reason (URLError r) = r"
| "getattr_reason (HTTPError _ msg) = TextReason msg"
| "getattr_reason _ = NoReason"

text \<open>Python truthiness of a reason, and of an optional string such as \<^verbatim>\<open>cafile\<close>.\<close>

fun truthy_reason :: "reason \<Rightarrow> bool" where
  "truthy_reason NoReason = False"
| "truthy_reason (TextReason s) = (s \<noteq> [])"
| "truthy_reason (ErrorReason _) = True"

fun truthy :: "string option \<Rightarrow> bool" where
  "truthy None = False"
| "truthy (Some s) = (s \<noteq> [])"

fun str_reason :: "reason \<Rightarrow> string" where
  "str_reason NoReason = ''None''"
| "str_reason (TextReason s) = s"
| "str_reason (ErrorReason s) = s"

text \<open>\<^verbatim>\<open>raise last_exc\<close>: raising \<^verbatim>\<open>None\<close> raises a \<^verbatim>\<open>TypeError\<close> instead.\<close>

fun py_raise :: "py_exc option \<Rightarrow> py_exc" where
  "py_raise None = TypeError ''exceptions must derive from BaseException''"
| "py_raise (Some e) = e"

text \<open>\<^verbatim>\<open>needle in haystack\<close> on strings: a contiguous, case-sensitive substring.\<close>

fun str_in :: "string \<Rightarrow> string \<Rightarrow> bool" where
  "str_in p [] = (p = [])"
| "str_in p (c # cs) = (prefix p (c # cs) \<or> str_in p cs)"

subsection \<open>The outside world\<close>

datatype verify_mode = CERT_NONE | CERT_REQUIRED

text \<open>An \<^verbatim>\<open>ssl.SSLContext\<close>, by the three things the script sets: \<open>ca_file = None\<close>
  is the platform's default trust store.\<close>

record ssl_context =
  check_hostname :: bool
  verify_mode :: verify_mode
  ca_file :: "string option"

text \<open>What \<^verbatim>\<open>urlopen\<close> returns: the attributes the script reads with \<^verbatim>\<open>getattr\<close>
  (\<open>None\<close> when the attribute is absent) and what \<^verbatim>\<open>resp.read()\<close> does.\<close>

record response =
  status :: "int option"
  resp_reason :: "string option"
  read :: "py_exc + string"

datatype outcome = Raises py_exc | Returns response

datatype write_outcome = Written | OpenFailed py_exc | WriteFailed py_exc string

datatype json =
    JNull
  | JBool bool
  | JInt int
  | JFloat string
  | JStr string
  | JArr "json list"
  | JObj "(string \<times> json) list"

text \<open>
  The environment of one run. \<open>urlopen n url timeout ctx\<close> is the outcome of the
  \<open>n\<close>-th call of \<^verbatim>\<open>urlopen\<close> (counted from 0 over the whole run);
  \<open>load_verify_locations p\<close> is the exception that loading the CA file \<open>p\<close> raises, if
  any; \<open>certifi_where\<close> is \<open>None\<close> when \<^verbatim>\<open>import certifi\<close> fails;
  \<open>decode_utf8\<close> and \<open>json_loads\<close> are \<^verbatim>\<open>bytes.decode("utf-8")\<close> and
  \<^verbatim>\<open>json.loads\<close>; \<open>write_file p s\<close> is what opening \<open>p\<close> for writing and writing
  \<open>s\<close> to it does.
\<close>

record env =
  urlopen :: "nat \<Rightarrow> string \<Rightarrow> rat \<Rightarrow> ssl_context option \<Rightarrow> outcome"
  load_verify_locations :: "string \<Rightarrow> py_exc option"
  certifi_where :: "string option"
  decode_utf8 :: "string \<Rightarrow> py_exc + string"
  json_loads :: "string \<Rightarrow> py_exc + json"
  write_file :: "string \<Rightarrow> string \<Rightarrow> write_outcome"

text \<open>The messages the script prints, with the values it formats into them.\<close>

datatype message =
    Already_exists string
  | Retrying_with_certifi
  | Failed_certifi_fallback py_exc
  | Original_error py_exc
  | Failed_to_download string py_exc
  | Not_valid_JSON py_exc
  | Failed_to_write string py_exc
  | Saved string

datatype event =
    Urlopen string rat "ssl_context option"
  | Sleep rat
  | Stderr message
  | Stdout message

record world =
  calls :: nat
  trace :: "event list"
  files :: "string \<rightharpoonup> string"

definition emit :: "event \<Rightarrow> world \<Rightarrow> world" where
  "emit ev w = w\<lparr>trace := trace w @ [ev]\<rparr>"

subsection \<open>\<^verbatim>\<open>download\<close>\<close>

text \<open>\<^verbatim>\<open>ssl.create_default_context(cafile=...)\<close>: certificates required and host names
  checked; with a CA file the trust store is that file alone, and loading it can fail.\<close>

definition create_default_context :: "env \<Rightarrow> string option \<Rightarrow> py_exc + ssl_context" where
  "create_default_context env cafile =
     (case cafile of
        None \<Rightarrow> Inr \<lparr>check_hostname = True, verify_mode = CERT_REQUIRED, ca_file = None\<rparr>
      | Some p \<Rightarrow>
          (case load_verify_locations env p of
             Some e \<Rightarrow> Inl e
           | None \<Rightarrow> Inr \<lparr>check_hostname = True, verify_mode = CERT_REQUIRED, ca_file = Some p\<rparr>))"

text \<open>Lines 31 to 37: the context of all attempts of one call.\<close>

definition make_ctx :: "env \<Rightarrow> string option \<Rightarrow> bool \<Rightarrow> py_exc + ssl_context option" where
  "make_ctx env cafile insecure =
     (if insecure then
        (case create_default_context env None of
           Inl e \<Rightarrow> Inl e
         | Inr ctx \<Rightarrow> Inr (Some (ctx\<lparr>check_hostname := False, verify_mode := CERT_NONE\<rparr>)))
      else if truthy cafile then
        (case create_default_context env cafile of
           Inl e \<Rightarrow> Inl e
         | Inr ctx \<Rightarrow> Inr (Some ctx))
      else Inr None)"

text \<open>\<^verbatim>\<open>getattr(resp, name, default)\<close>.\<close>

fun getattr :: "'a option \<Rightarrow> 'a \<Rightarrow> 'a" where
  "getattr None d = d"
| "getattr (Some v) d = v"

text \<open>Lines 43 to 46 (and 48 to 51), what one attempt makes of the outcome of its
  \<^verbatim>\<open>urlopen\<close>: an exception of \<^verbatim>\<open>urlopen\<close> propagates, a status other than 200
  raises an \<^verbatim>\<open>HTTPError\<close>, otherwise the result is that of \<^verbatim>\<open>resp.read()\<close>.\<close>

fun attempt_result :: "outcome \<Rightarrow> py_exc + string" where
  "attempt_result (Raises e) = Inl e"
| "attempt_result (Returns resp) =
     (if getattr (status resp) 200 \<noteq> 200
      then Inl (HTTPError (getattr (status resp) 0) (getattr (resp_reason resp) []))
      else read resp)"

text \<open>Lines 40 to 51, the body of the \<^verbatim>\<open>try\<close>: one call of \<^verbatim>\<open>urlopen\<close>, with the
  context when there is one. The two branches of the source differ only in that.\<close>

definition attempt_once ::
  "env \<Rightarrow> string \<Rightarrow> rat \<Rightarrow> ssl_context option \<Rightarrow> world \<Rightarrow> (py_exc + string) \<times> world" where
  "attempt_once env url timeout ctx w =
     (attempt_result (urlopen env (calls w) url timeout ctx),
      (emit (Urlopen url timeout ctx) w)\<lparr>calls := calls w + 1\<rparr>)"

text \<open>Lines 39 to 57: the loop \<^verbatim>\<open>for attempt in range(1, retries + 1)\<close> from the
  iteration \<open>attempt\<close> on, and the \<^verbatim>\<open>raise last_exc\<close> after it.\<close>

function download_loop ::
  "env \<Rightarrow> string \<Rightarrow> rat \<Rightarrow> int \<Rightarrow> rat \<Rightarrow> ssl_context option \<Rightarrow> int \<Rightarrow> py_exc option \<Rightarrow> world
     \<Rightarrow> (py_exc + string) \<times> world" where
  "download_loop env url timeout retries backoff ctx attempt last_exc w =
     (if retries < attempt then (Inl (py_raise last_exc), w)
      else
        (case attempt_once env url timeout ctx w of
           (Inr body, w') \<Rightarrow> (Inr body, w')
         | (Inl e, w') \<Rightarrow>
             if attempt = retries then (Inl (py_raise (Some e)), w')
             else download_loop env url timeout retries backoff ctx (attempt + 1) (Some e)
                    (emit (Sleep (backoff * of_int attempt)) w')))"
  by pat_completeness auto
termination
  by (relation "measure (\<lambda>(env, url, timeout, retries, backoff, ctx, attempt, last_exc, w).
                  nat (retries + 1 - attempt))") auto

definition download ::
  "env \<Rightarrow> string \<Rightarrow> rat \<Rightarrow> int \<Rightarrow> rat \<Rightarrow> string option \<Rightarrow> bool \<Rightarrow> world
     \<Rightarrow> (py_exc + string) \<times> world" where
  "download env url timeout retries backoff cafile insecure w =
     (case make_ctx env cafile insecure of
        Inl e \<Rightarrow> (Inl e, w)
      | Inr ctx \<Rightarrow> download_loop env url timeout retries backoff ctx 1 None w)"

declare download_loop.simps [simp del]


subsection \<open>The certificate-failure test of \<^verbatim>\<open>main\<close>\<close>

text \<open>Lines 80 to 95: \<^verbatim>\<open>is_ssl_err\<close> is set for every \<^verbatim>\<open>ssl.SSLError\<close>, and for a
  \<^verbatim>\<open>URLError\<close> with a truthy reason whose \<^verbatim>\<open>str()\<close> contains one of two literal
  signatures.\<close>

definition is_ssl_err :: "py_exc \<Rightarrow> bool" where
  "is_ssl_err e =
     (isinstance_SSLError e \<or>
      (isinstance_URLError e \<and> truthy_reason (getattr_reason e) \<and>
       (str_in ''CERTIFICATE_VERIFY_FAILED'' (str_reason (getattr_reason e)) \<or>
        str_in ''certificate verify failed'' (str_reason (getattr_reason e)))))"

subsection \<open>\<^verbatim>\<open>json.dump\<close> with \<^verbatim>\<open>indent=2, ensure_ascii=False\<close>\<close>

text \<open>
  The encoder is Python's, not the script's; it is written out here because the script's
  output is exactly what it produces. A \<^verbatim>\<open>str\<close> is represented by its UTF-8 bytes,
  which is what the file opened with \<^verbatim>\<open>encoding="utf-8"\<close> receives, and a float by
  the text the encoder prints for it.
\<close>

function str_nat :: "nat \<Rightarrow> string" where
  "str_nat n =
     (if n < 10 then [''0123456789'' ! n]
      else str_nat (n div 10) @ [''0123456789'' ! (n mod 10)])"
  by pat_completeness auto
termination
  by (relation "measure id") auto

declare str_nat.simps [simp del]

definition str_int :: "int \<Rightarrow> string" where
  "str_int i = (if i < 0 then CHR ''-'' # str_nat (nat (- i)) else str_nat (nat i))"

text \<open>With \<^verbatim>\<open>ensure_ascii=False\<close> only the quote, the backslash and the control
  characters below 0x20 are escaped; every other character is written as it is.\<close>

definition escape_char :: "char \<Rightarrow> string" where
  "escape_char c =
     (if c = CHR 0x22 then [CHR 0x5C, CHR 0x22]
      else if c = CHR 0x5C then [CHR 0x5C, CHR 0x5C]
      else if c = CHR 0x0A then [CHR 0x5C, CHR ''n'']
      else if c = CHR 0x0D then [CHR 0x5C, CHR ''r'']
      else if c = CHR 0x09 then [CHR 0x5C, CHR ''t'']
      else if c = CHR 0x08 then [CHR 0x5C, CHR ''b'']
      else if c = CHR 0x0C then [CHR 0x5C, CHR ''f'']
      else if (of_char c :: nat) < 32
        then [CHR 0x5C, CHR ''u'', CHR ''0'', CHR ''0'',
              ''0123456789abcdef'' ! (of_char c div 16), ''0123456789abcdef'' ! (of_char c mod 16)]
      else [c])"

definition encode_str :: "string \<Rightarrow> string" where
  "encode_str s = CHR 0x22 # concat (map escape_char s) @ [CHR 0x22]"

fun join :: "string \<Rightarrow> string list \<Rightarrow> string" where
  "join sep [] = []"
| "join sep [x] = x"
| "join sep (x # y # ys) = x @ sep @ join sep (y # ys)"

definition newline_indent :: "nat \<Rightarrow> nat \<Rightarrow> string" where
  "newline_indent indent level = CHR 0x0A # replicate (indent * level) CHR '' ''"

fun json_dumps :: "nat \<Rightarrow> nat \<Rightarrow> json \<Rightarrow> string" where
  "json_dumps indent level JNull = ''null''"
| "json_dumps indent level (JBool b) = (if b then ''true'' else ''false'')"
| "json_dumps indent level (JInt i) = str_int i"
| "json_dumps indent level (JFloat repr) = repr"
| "json_dumps indent level (JStr s) = encode_str s"
| "json_dumps indent level (JArr xs) =
     (if xs = [] then ''[]''
      else ''['' @ newline_indent indent (level + 1)
           @ join (CHR '','' # newline_indent indent (level + 1))
               (map (json_dumps indent (level + 1)) xs)
           @ newline_indent indent level @ '']'')"
| "json_dumps indent level (JObj kvs) =
     (if kvs = [] then ''{}''
      else ''{'' @ newline_indent indent (level + 1)
           @ join (CHR '','' # newline_indent indent (level + 1))
               (map (\<lambda>(k, v). encode_str k @ '': '' @ json_dumps indent (level + 1) v) kvs)
           @ newline_indent indent level @ ''}'')"

subsection \<open>\<^verbatim>\<open>main\<close>\<close>

text \<open>The parsed command line. \<^verbatim>\<open>argparse\<close> itself is outside the model.\<close>

record args =
  args_output :: string
  args_force :: bool
  args_retries :: int
  args_insecure :: bool
  args_cafile :: "string option"

definition URL :: string where
  "URL = ''https://www.cisa.gov/sites/default/files/feeds/known_exploited_vulnerabilities.json''"

text \<open>\<^verbatim>\<open>os.path.exists\<close>, on a file system that holds the files of \<open>files\<close>.\<close>

definition path_exists :: "world \<Rightarrow> string \<Rightarrow> bool" where
  "path_exists w p = (files w p \<noteq> None)"

text \<open>Lines 75 to 108: the first \<^verbatim>\<open>try\<close>. The result is the downloaded bytes, or the
  exit code of the \<^verbatim>\<open>sys.exit\<close> reached. \<^verbatim>\<open>download\<close> is called with its default
  \<^verbatim>\<open>timeout=15\<close> and \<^verbatim>\<open>backoff=1.5\<close>.\<close>

definition main_fetch :: "env \<Rightarrow> args \<Rightarrow> world \<Rightarrow> (int + string) \<times> world" where
  "main_fetch env a w =
     (case download env URL 15 (args_retries a) (3 / 2) (args_cafile a) (args_insecure a) w of
        (Inr raw, w1) \<Rightarrow> (Inr raw, w1)
      | (Inl e, w1) \<Rightarrow>
          if is_ssl_err e \<and> \<not> args_insecure a \<and> \<not> truthy (args_cafile a) then
            (case certifi_where env of
               None \<Rightarrow>
                 (Inl 2, emit (Stderr (Original_error e))
                           (emit (Stderr (Failed_certifi_fallback (ImportError ''certifi''))) w1))
             | Some p \<Rightarrow>
                 (case download env URL 15 (args_retries a) (3 / 2) (Some p) False
                         (emit (Stderr Retrying_with_certifi) w1) of
                    (Inr raw, w2) \<Rightarrow> (Inr raw, w2)
                  | (Inl e2, w2) \<Rightarrow>
                      (Inl 2, emit (Stderr (Original_error e))
                                (emit (Stderr (Failed_certifi_fallback e2)) w2))))
          else (Inl 2, emit (Stderr (Failed_to_download URL e)) w1))"

text \<open>Lines 110 to 123: decode and parse, then write the pretty-printed value.\<close>

definition main_save :: "env \<Rightarrow> string \<Rightarrow> string \<Rightarrow> world \<Rightarrow> int \<times> world" where
  "main_save env outpath raw w =
     (case decode_utf8 env raw of
        Inl e \<Rightarrow> (3, emit (Stderr (Not_valid_JSON e)) w)
      | Inr text \<Rightarrow>
          (case json_loads env text of
             Inl e \<Rightarrow> (3, emit (Stderr (Not_valid_JSON e)) w)
           | Inr parsed \<Rightarrow>
               (case write_file env outpath (json_dumps 2 0 parsed) of
                  OpenFailed e \<Rightarrow> (4, emit (Stderr (Failed_to_write outpath e)) w)
                | WriteFailed e partial \<Rightarrow>
                    (4, emit (Stderr (Failed_to_write outpath e))
                          (w\<lparr>files := (files w)(outpath \<mapsto> partial)\<rparr>))
                | Written \<Rightarrow>
                    (0, emit (Stdout (Saved outpath))
                          (w\<lparr>files := (files w)(outpath \<mapsto> json_dumps 2 0 parsed)\<rparr>)))))"

text \<open>Lines 60 to 123. The result is the exit code of the process.\<close>

definition main :: "env \<Rightarrow> args \<Rightarrow> world \<Rightarrow> int \<times> world" where
  "main env a w =
     (if path_exists w (args_output a) \<and> \<not> args_force a
      then (1, emit (Stderr (Already_exists (args_output a))) w)
      else
        (case main_fetch env a w of
           (Inl code, w') \<Rightarrow> (code, w')
         | (Inr raw, w') \<Rightarrow> main_save env (args_output a) raw w'))"


subsection \<open>Reading a trace\<close>

text \<open>The number of connection attempts in a list of events.\<close>

fun is_Urlopen :: "event \<Rightarrow> bool" where
  "is_Urlopen (Urlopen _ _ _) = True"
| "is_Urlopen _ = False"

definition attempts :: "event list \<Rightarrow> nat" where
  "attempts t = length (filter is_Urlopen t)"

text \<open>The events a run added to the trace.\<close>

definition new_events :: "world \<Rightarrow> world \<Rightarrow> event list" where
  "new_events w w' = drop (length (trace w)) (trace w')"

subsection \<open>The classification rule in the words of the specification\<close>

text \<open>\<^verbatim>\<open>str(e)\<close>, the textual description of an exception.\<close>

fun str_exc :: "py_exc \<Rightarrow> string" where
  "str_exc (SSLError s) = s"
| "str_exc (URLError r) = ''<urlopen error '' @ str_reason r @ ''>''"
| "str_exc (HTTPError code msg) = ''HTTP Error '' @ str_int code @ '': '' @ msg"
| "str_exc (TypeError s) = s"
| "str_exc (ImportError m) = ''No module named '' @ [CHR 0x27] @ m @ [CHR 0x27]"
| "str_exc (OtherException s) = s"

text \<open>\<^verbatim>\<open>str.lower\<close> on the ASCII letters.\<close>

definition lower_char :: "char \<Rightarrow> char" where
  "lower_char c =
     (if 65 \<le> (of_char c :: nat) \<and> (of_char c :: nat) \<le> 90
      then char_of (of_char c + 32 :: nat) else c)"

text \<open>
  The specification's rule, to be compared with \<open>is_ssl_err\<close>: a failure is a
  certificate-verification failure when its textual description contains a
  verification-failure indicator, matched as a substring without regard to letter case.
  The indicators are the two signatures of the script.
\<close>

definition verification_failure_indicators :: "string list" where
  "verification_failure_indicators = [''CERTIFICATE_VERIFY_FAILED'', ''certificate verify failed'']"

definition spec_certificate_verification_failure :: "py_exc \<Rightarrow> bool" where
  "spec_certificate_verification_failure e =
     list_ex (\<lambda>ind. str_in (map lower_char ind) (map lower_char (str_exc e)))
       verification_failure_indicators"

subsection \<open>Example environments\<close>

text \<open>
  A world with no file and no event yet, and an environment in which every connection
  times out, every CA file loads, certifi is installed, any bytes decode, the text
  \<^verbatim>\<open>{"a": 1}\<close> parses to the object it denotes and writing succeeds. The examples
  below change one field at a time.
\<close>

definition w0 :: world where
  "w0 = \<lparr>calls = 0, trace = [], files = Map.empty\<rparr>"

definition env_base :: env where
  \<open>env_base =
     \<lparr>urlopen = (\<lambda>n url timeout ctx. Raises (URLError (ErrorReason ''timed out''))),
      load_verify_locations = (\<lambda>p. None),
      certifi_where = Some ''/site-packages/certifi/cacert.pem'',
      decode_utf8 = Inr,
      json_loads = (\<lambda>s. if s = ''{"a": 1}'' then Inr (JObj [(''a'', JInt 1)])
                         else Inl (OtherException ''JSONDecodeError'')),
      write_file = (\<lambda>p s. Written)\<rparr>\<close>

text \<open>The server answers the \<open>n\<close>-th request with status \<open>500 + n\<close>, which
  \<^verbatim>\<open>urlopen\<close> raises as an \<^verbatim>\<open>HTTPError\<close>.\<close>

definition env_5xx :: env where
  "env_5xx = env_base\<lparr>urlopen := (\<lambda>n url timeout ctx. Raises (HTTPError (500 + int n) ''Server Error''))\<rparr>"

text \<open>The server answers 201 Created, which \<^verbatim>\<open>urlopen\<close> returns as a response.\<close>

definition resp_201 :: response where
  "resp_201 = \<lparr>status = Some 201, resp_reason = Some ''Created'', read = Inr ''{}''\<rparr>"

definition env_201 :: env where
  "env_201 = env_base\<lparr>urlopen := (\<lambda>n url timeout ctx. Returns resp_201)\<rparr>"

text \<open>The server answers 200 with the body \<^verbatim>\<open>{"a": 1}\<close>.\<close>

definition resp_json :: response where
  \<open>resp_json = \<lparr>status = Some 200, resp_reason = Some ''OK'', read = Inr ''{"a": 1}''\<rparr>\<close>

definition env_json :: env where
  "env_json = env_base\<lparr>urlopen := (\<lambda>n url timeout ctx. Returns resp_json)\<rparr>"

text \<open>The default trust store rejects the server's certificate; a connection with an
  explicit context gets the feed.\<close>

definition cert_error :: py_exc where
  "cert_error = URLError (ErrorReason
              ''[SSL: CERTIFICATE_VERIFY_FAILED] certificate verify failed (_ssl.c:1000)'')"

definition env_cert :: env where
  "env_cert = env_base\<lparr>urlopen := (\<lambda>n url timeout ctx.
       if ctx = None
       then Raises cert_error
       else Returns resp_json)\<rparr>"

definition certifi_ctx :: "ssl_context option" where
  "certifi_ctx = Some \<lparr>check_hostname = True, verify_mode = CERT_REQUIRED,
                       ca_file = Some ''/site-packages/certifi/cacert.pem''\<rparr>"

text \<open>The body is not JSON; the output file cannot be opened.\<close>

definition env_html :: env where
  "env_html = env_base\<lparr>urlopen := (\<lambda>n url timeout ctx.
       Returns \<lparr>status = Some 200, resp_reason = Some ''OK'', read = Inr ''<html>''\<rparr>)\<rparr>"

definition env_readonly :: env where
  "env_readonly = env_json\<lparr>write_file := (\<lambda>p s. OpenFailed (OtherException ''Permission denied''))\<rparr>"

text \<open>The command line with no option, the one with \<^verbatim>\<open>--retries 2\<close>, and a world in
  which the default output file exists.\<close>

definition args_default :: args where
  "args_default =
     \<lparr>args_output = ''known_exploited_vulnerabilities.json'', args_force = False,
      args_retries = 3, args_insecure = False, args_cafile = None\<rparr>"

definition args_two :: args where
  "args_two = args_default\<lparr>args_retries := 2\<rparr>"

definition w_existing :: world where
  "w_existing = w0\<lparr>files := [''known_exploited_vulnerabilities.json'' \<mapsto> ''old'']\<rparr>"


section \<open>Properties of \<^verbatim>\<open>download\<close>\<close>

subsection \<open>Auxiliary facts\<close>

text \<open>A run of the loop in which every attempt from \<open>attempt\<close> to \<open>retries\<close> fails:
  its result, its number of calls and its events.\<close>

lemma download_loop_all_fail:
  assumes "attempt \<le> retries"
    and "\<forall>k. attempt \<le> k \<and> k \<le> retries \<longrightarrow>
           isl (attempt_result (urlopen env (calls w + nat (k - attempt)) url timeout ctx))"
  shows "download_loop env url timeout retries backoff ctx attempt last_exc w =
     (Inl (projl (attempt_result (urlopen env (calls w + nat (retries - attempt)) url timeout ctx))),
      w\<lparr>calls := calls w + nat (retries - attempt + 1),
        trace := trace w
          @ concat (map (\<lambda>k. [Urlopen url timeout ctx, Sleep (backoff * of_int k)]) [attempt..retries - 1])
          @ [Urlopen url timeout ctx]\<rparr>)"
  using assms
proof (induction "nat (retries - attempt)" arbitrary: attempt last_exc w)
  case 0
  then have eq: "attempt = retries" by simp
  from "0.prems"(2) eq have "isl (attempt_result (urlopen env (calls w + nat (retries - retries)) url timeout ctx))"
    by blast
  then obtain e where e: "attempt_result (urlopen env (calls w) url timeout ctx) = Inl e"
    by (cases "attempt_result (urlopen env (calls w) url timeout ctx)") auto
  show ?case
    by (subst download_loop.simps) (simp add: eq e attempt_once_def emit_def)
next
  case (Suc n)
  then have lt: "attempt < retries" by simp
  from Suc.prems(2) lt have "isl (attempt_result (urlopen env (calls w + nat (attempt - attempt)) url timeout ctx))"
    by (metis order_refl less_imp_le)
  then obtain e where e: "attempt_result (urlopen env (calls w) url timeout ctx) = Inl e"
    by (cases "attempt_result (urlopen env (calls w) url timeout ctx)") auto
  define w' where "w' = emit (Sleep (backoff * of_int attempt))
                          ((emit (Urlopen url timeout ctx) w)\<lparr>calls := calls w + 1\<rparr>)"
  have cw: "calls w' = calls w + 1"
    and tw: "trace w' = trace w @ [Urlopen url timeout ctx, Sleep (backoff * of_int attempt)]"
    and fw: "files w' = files w"
    by (simp_all add: w'_def emit_def)
  have n: "n = nat (retries - (attempt + 1))" using Suc.hyps(2) by simp
  have le: "attempt + 1 \<le> retries" using lt by simp
  have all: "\<forall>k. attempt + 1 \<le> k \<and> k \<le> retries \<longrightarrow>
        isl (attempt_result (urlopen env (calls w' + nat (k - (attempt + 1))) url timeout ctx))"
  proof (intro allI impI)
    fix k assume k: "attempt + 1 \<le> k \<and> k \<le> retries"
    then have "calls w' + nat (k - (attempt + 1)) = calls w + nat (k - attempt)"
      unfolding cw by linarith
    moreover from k Suc.prems(2)
    have "isl (attempt_result (urlopen env (calls w + nat (k - attempt)) url timeout ctx))"
      by simp
    ultimately show "isl (attempt_result (urlopen env (calls w' + nat (k - (attempt + 1))) url timeout ctx))"
      by simp
  qed
  note ih = Suc.hyps(1)[OF n le all, of "Some e"]
  have c1: "calls w' + nat (retries - (attempt + 1)) = calls w + nat (retries - attempt)"
    using lt unfolding cw by linarith
  have c2: "calls w' + nat (retries - (attempt + 1) + 1) = calls w + nat (retries - attempt + 1)"
    using lt unfolding cw by linarith
  have up: "[attempt..retries - 1] = attempt # [attempt + 1..retries - 1]"
    using lt by (simp add: upto_rec1)
  have step: "download_loop env url timeout retries backoff ctx attempt last_exc w =
              download_loop env url timeout retries backoff ctx (attempt + 1) (Some e) w'"
    using lt e by (subst download_loop.simps) (simp add: attempt_once_def w'_def)
  have weq: "w'\<lparr>calls := calls w + nat (retries - attempt + 1),
        trace := trace w'
          @ concat (map (\<lambda>k. [Urlopen url timeout ctx, Sleep (backoff * of_int k)]) [attempt + 1..retries - 1])
          @ [Urlopen url timeout ctx]\<rparr>
      = w\<lparr>calls := calls w + nat (retries - attempt + 1),
        trace := trace w
          @ concat (map (\<lambda>k. [Urlopen url timeout ctx, Sleep (backoff * of_int k)]) [attempt..retries - 1])
          @ [Urlopen url timeout ctx]\<rparr>"
    unfolding up by (simp add: w'_def emit_def)
  show ?case
    unfolding step ih c1 c2 weq ..
qed

lemma sleep_before_form:
  "concat (map (\<lambda>k. [U, S k]) [a..N - 1]) @ [U]
     = U # concat (map (\<lambda>n. [S (n - 1), U]) [a + 1..N])"
proof (induction "nat (N - a)" arbitrary: a)
  case 0
  then show ?case by simp
next
  case (Suc n)
  then have lt: "a < N" by simp
  have n: "n = nat (N - (a + 1))" using Suc.hyps(2) by simp
  have u1: "[a..N - 1] = a # [a + 1..N - 1]" using lt by (simp add: upto_rec1)
  have u2: "[a + 1..N] = (a + 1) # [a + 1 + 1..N]" using lt by (simp add: upto_rec1)
  show ?case
    unfolding u1 u2 using Suc.hyps(1)[OF n] by simp
qed

lemma attempts_fail_trace:
  "a \<le> N \<Longrightarrow> attempts (concat (map (\<lambda>k. [Urlopen u t c, Sleep (f k)]) [a..N - 1]) @ [Urlopen u t c])
     = nat (N - a + 1)"
proof (induction "nat (N - a)" arbitrary: a)
  case 0
  then show ?case by (simp add: attempts_def)
next
  case (Suc n)
  then have lt: "a < N" by simp
  have n: "n = nat (N - (a + 1))" using Suc.hyps(2) by simp
  have u1: "[a..N - 1] = a # [a + 1..N - 1]" using lt by (simp add: upto_rec1)
  have "attempts (concat (map (\<lambda>k. [Urlopen u t c, Sleep (f k)]) [a + 1..N - 1]) @ [Urlopen u t c])
     = nat (N - (a + 1) + 1)"
    using Suc.hyps(1)[OF n] lt by simp
  then show ?case
    unfolding u1 using lt by (simp add: attempts_def)
qed

text \<open>Any run of the loop: it leaves the files alone, and its events are calls of
  \<^verbatim>\<open>urlopen\<close> with the one context and sleeps, with at most \<open>retries\<close> calls.\<close>

lemma download_loop_effects:
  "download_loop env url timeout retries backoff ctx attempt last_exc w = (r, w') \<Longrightarrow>
     files w' = files w \<and>
     (\<exists>t. trace w' = trace w @ t \<and>
          (\<forall>ev \<in> set t. ev = Urlopen url timeout ctx \<or> (\<exists>d. ev = Sleep d)) \<and>
          calls w' = calls w + attempts t \<and>
          attempts t \<le> nat (retries + 1 - attempt))"
proof (induction "nat (retries + 1 - attempt)" arbitrary: attempt last_exc w)
  case 0
  then have "retries < attempt" by simp
  with "0.prems" have "w' = w"
    by (subst (asm) download_loop.simps) simp
  then show ?case by (simp add: attempts_def)
next
  case (Suc n)
  then have le: "attempt \<le> retries" by simp
  define w1 where "w1 = (emit (Urlopen url timeout ctx) w)\<lparr>calls := calls w + 1\<rparr>"
  have w1: "files w1 = files w" "trace w1 = trace w @ [Urlopen url timeout ctx]" "calls w1 = calls w + 1"
    by (simp_all add: w1_def emit_def)
  let ?res = "attempt_result (urlopen env (calls w) url timeout ctx)"
  have one: "files w1 = files w \<and>
     (\<exists>t. trace w1 = trace w @ t \<and>
          (\<forall>ev \<in> set t. ev = Urlopen url timeout ctx \<or> (\<exists>d. ev = Sleep d)) \<and>
          calls w1 = calls w + attempts t \<and>
          attempts t \<le> nat (retries + 1 - attempt))"
    using le by (auto simp: w1 attempts_def intro!: exI[of _ "[Urlopen url timeout ctx]"])
  show ?case
  proof (cases ?res)
    case (Inr body)
    with Suc.prems le have "w' = w1"
      by (subst (asm) download_loop.simps) (simp add: attempt_once_def w1_def)
    with one show ?thesis by simp
  next
    case (Inl e)
    show ?thesis
    proof (cases "attempt = retries")
      case True
      with Inl Suc.prems have "w' = w1"
        by (subst (asm) download_loop.simps) (simp add: attempt_once_def w1_def)
      with one show ?thesis by simp
    next
      case False
      define w2 where "w2 = emit (Sleep (backoff * of_int attempt)) w1"
      have w2: "files w2 = files w" "calls w2 = calls w + 1"
        "trace w2 = trace w @ [Urlopen url timeout ctx, Sleep (backoff * of_int attempt)]"
        by (simp_all add: w2_def emit_def w1)
      from False Inl Suc.prems le
      have rec: "download_loop env url timeout retries backoff ctx (attempt + 1) (Some e) w2 = (r, w')"
        by (subst (asm) download_loop.simps) (simp add: attempt_once_def w1_def w2_def)
      have n: "n = nat (retries + 1 - (attempt + 1))" using Suc.hyps(2) by simp
      from Suc.hyps(1)[OF n rec] obtain t where
        t: "files w' = files w2" "trace w' = trace w2 @ t"
           "\<forall>ev \<in> set t. ev = Urlopen url timeout ctx \<or> (\<exists>d. ev = Sleep d)"
           "calls w' = calls w2 + attempts t"
           "attempts t \<le> nat (retries + 1 - (attempt + 1))"
        by blast
      let ?t = "[Urlopen url timeout ctx, Sleep (backoff * of_int attempt)] @ t"
      have "trace w' = trace w @ ?t" using t(2) w2(3) by simp
      moreover have "\<forall>ev \<in> set ?t. ev = Urlopen url timeout ctx \<or> (\<exists>d. ev = Sleep d)"
        using t(3) by auto
      moreover have "attempts ?t = attempts t + 1" by (simp add: attempts_def)
      moreover have "attempts t + 1 \<le> nat (retries + 1 - attempt)" using t(5) le False by linarith
      ultimately show ?thesis using t(1,4) w2(1,2) by (metis add.assoc add.commute)
    qed
  qed
qed

lemma download_effects:
  assumes "download env url timeout retries backoff cafile insecure w = (r, w')"
  shows "files w' = files w \<and>
     (\<exists>t. trace w' = trace w @ t \<and>
          (\<forall>ev \<in> set t. (\<exists>ctx. make_ctx env cafile insecure = Inr ctx \<and> ev = Urlopen url timeout ctx)
                          \<or> (\<exists>d. ev = Sleep d)) \<and>
          calls w' = calls w + attempts t \<and>
          attempts t \<le> nat retries)"
proof (cases "make_ctx env cafile insecure")
  case (Inl e)
  with assms have "w' = w" by (simp add: download_def)
  then show ?thesis by (simp add: attempts_def)
next
  case (Inr ctx)
  with assms have "download_loop env url timeout retries backoff ctx 1 None w = (r, w')"
    by (simp add: download_def)
  from download_loop_effects[OF this] Inr show ?thesis by auto
qed

subsection \<open>The retry loop\<close>

text \<open>
  C10: called with a retry count of zero or less, \<^verbatim>\<open>download\<close> (once its context is
  built, which cannot fail without a CA file) makes no connection attempt and does not
  sleep: the world is returned as it was. It fails by \<^verbatim>\<open>raise None\<close>, which is a
  \<^verbatim>\<open>TypeError\<close>, neither a \<^verbatim>\<open>URLError\<close> nor an \<^verbatim>\<open>SSLError\<close>.
\<close>

theorem download_nonpositive_retries:
  assumes "retries \<le> 0"
    and "make_ctx env cafile insecure = Inr ctx"
  shows "download env url timeout retries backoff cafile insecure w = (Inl (py_raise None), w)
         \<and> py_raise None = TypeError ''exceptions must derive from BaseException''
         \<and> \<not> isinstance_URLError (py_raise None) \<and> \<not> isinstance_SSLError (py_raise None)"
  using assms by (simp add: download_def download_loop.simps)

theorem download_nonpositive_retries_witness:
  "(0::int) \<le> 0 \<and> make_ctx env_base None False = Inr None
   \<and> download env_base URL 15 0 (3 / 2) None False w0
       = (Inl (TypeError ''exceptions must derive from BaseException''), w0)"
proof -
  have h: "make_ctx env_base None False = Inr None" by (simp add: make_ctx_def)
  show ?thesis
    using download_nonpositive_retries [of 0 env_base None False None URL 15 "3 / 2" w0] h
    by simp
qed

text \<open>
  C4: for every retry count \<open>N \<ge> 1\<close>, a download whose attempts all fail makes exactly
  \<open>N\<close> calls of \<^verbatim>\<open>urlopen\<close> and then raises the error of the last attempt, the
  \<open>N\<close>-th.
\<close>

theorem download_all_fail_attempts:
  assumes "1 \<le> retries"
    and "make_ctx env cafile insecure = Inr ctx"
    and "\<forall>k < nat retries. isl (attempt_result (urlopen env (calls w + k) url timeout ctx))"
  shows "fst (download env url timeout retries backoff cafile insecure w)
           = Inl (projl (attempt_result (urlopen env (calls w + (nat retries - 1)) url timeout ctx)))
         \<and> calls (snd (download env url timeout retries backoff cafile insecure w))
           = calls w + nat retries
         \<and> attempts (trace (snd (download env url timeout retries backoff cafile insecure w)))
           = attempts (trace w) + nat retries"
proof -
  have all: "\<forall>k. 1 \<le> k \<and> k \<le> retries \<longrightarrow>
           isl (attempt_result (urlopen env (calls w + nat (k - 1)) url timeout ctx))"
  proof (intro allI impI)
    fix k assume "1 \<le> k \<and> k \<le> retries"
    then have "nat (k - 1) < nat retries" by linarith
    with assms(3) show "isl (attempt_result (urlopen env (calls w + nat (k - 1)) url timeout ctx))"
      by blast
  qed
  have n1: "nat (retries - 1) = nat retries - 1" and n2: "nat (retries - 1 + 1) = nat retries"
    using assms(1) by linarith+
  note run = download_loop_all_fail [OF assms(1) all, of backoff None]
  have a: "attempts (trace w @ concat (map (\<lambda>k. [Urlopen url timeout ctx, Sleep (backoff * of_int k)])
                                       [1..retries - 1]) @ [Urlopen url timeout ctx])
           = attempts (trace w) + nat retries"
    using attempts_fail_trace [OF assms(1), of url timeout ctx "\<lambda>k. backoff * of_int k"] n2
    by (simp add: attempts_def)
  show ?thesis
    using a by (simp add: download_def assms(2) run n1 n2)
qed

theorem download_all_fail_attempts_witness:
  "(1::int) \<le> 3 \<and> make_ctx env_5xx None False = Inr None
   \<and> isl (attempt_result (urlopen env_5xx (calls w0 + 0) URL 15 None))
   \<and> isl (attempt_result (urlopen env_5xx (calls w0 + 1) URL 15 None))
   \<and> isl (attempt_result (urlopen env_5xx (calls w0 + 2) URL 15 None))
   \<and> fst (download env_5xx URL 15 3 (3 / 2) None False w0) = Inl (HTTPError 502 ''Server Error'')
   \<and> calls (snd (download env_5xx URL 15 3 (3 / 2) None False w0)) = 3
   \<and> attempts (trace (snd (download env_5xx URL 15 3 (3 / 2) None False w0))) = 3"
proof -
  have h1: "make_ctx env_5xx None False = Inr None" by (simp add: make_ctx_def)
  have h2: "\<forall>k < nat 3. isl (attempt_result (urlopen env_5xx (calls w0 + k) URL 15 None))"
    by (simp add: env_5xx_def)
  show ?thesis
    using download_all_fail_attempts [of 3 env_5xx None False None w0 URL 15 "3 / 2"] h1 h2
    by (simp add: env_5xx_def w0_def attempts_def)
qed

text \<open>
  C5: in such a failing run the first attempt is made at once, every later attempt
  \<open>n\<close> (from 2 to \<open>N\<close>) comes right after a sleep of \<open>backoff \<times> (n - 1)\<close> seconds, and
  the last attempt is the last event: nothing is slept after it. The delays are these
  products alone, with nothing added and no bound on their sum.
\<close>

theorem download_all_fail_sleeps:
  assumes "1 \<le> retries"
    and "make_ctx env cafile insecure = Inr ctx"
    and "\<forall>k < nat retries. isl (attempt_result (urlopen env (calls w + k) url timeout ctx))"
  shows "trace (snd (download env url timeout retries backoff cafile insecure w))
           = trace w @ Urlopen url timeout ctx
               # concat (map (\<lambda>n. [Sleep (backoff * of_int (n - 1)), Urlopen url timeout ctx])
                           [2..retries])"
proof -
  have all: "\<forall>k. 1 \<le> k \<and> k \<le> retries \<longrightarrow>
           isl (attempt_result (urlopen env (calls w + nat (k - 1)) url timeout ctx))"
  proof (intro allI impI)
    fix k assume "1 \<le> k \<and> k \<le> retries"
    then have "nat (k - 1) < nat retries" by linarith
    with assms(3) show "isl (attempt_result (urlopen env (calls w + nat (k - 1)) url timeout ctx))"
      by blast
  qed
  note run = download_loop_all_fail [OF assms(1) all, of backoff None]
  have form: "concat (map (\<lambda>k. [Urlopen url timeout ctx, Sleep (backoff * of_int k)]) [1..retries - 1])
                @ [Urlopen url timeout ctx]
              = Urlopen url timeout ctx
                # concat (map (\<lambda>n. [Sleep (backoff * of_int (n - 1)), Urlopen url timeout ctx])
                            [1 + 1..retries])"
    by (rule sleep_before_form [of "Urlopen url timeout ctx" "\<lambda>k. Sleep (backoff * of_int k)" 1 retries])
  show ?thesis
    using form by (simp add: download_def assms(2) run)
qed

theorem download_all_fail_sleeps_witness:
  "(1::int) \<le> 3 \<and> make_ctx env_5xx None False = Inr None
   \<and> isl (attempt_result (urlopen env_5xx (calls w0 + 0) URL 15 None))
   \<and> isl (attempt_result (urlopen env_5xx (calls w0 + 1) URL 15 None))
   \<and> isl (attempt_result (urlopen env_5xx (calls w0 + 2) URL 15 None))
   \<and> trace (snd (download env_5xx URL 15 3 (3 / 2) None False w0))
       = [Urlopen URL 15 None, Sleep (3 / 2), Urlopen URL 15 None, Sleep 3, Urlopen URL 15 None]"
proof -
  have h1: "make_ctx env_5xx None False = Inr None" by (simp add: make_ctx_def)
  have h2: "\<forall>k < nat 3. isl (attempt_result (urlopen env_5xx (calls w0 + k) URL 15 None))"
    by (simp add: env_5xx_def)
  have u: "[2..3] = [2, 3::int]" by (simp add: upto_rec1)
  show ?thesis
    using download_all_fail_sleeps [of 3 env_5xx None False None w0 URL 15 "3 / 2"] h1 h2
    by (simp add: w0_def u)
qed

subsection \<open>The connection context\<close>

text \<open>
  C9: every connection that \<^verbatim>\<open>download\<close> opens goes to the given URL with the given
  timeout, and its context is decided by \<^verbatim>\<open>insecure\<close> first: with \<^verbatim>\<open>insecure\<close> the
  context checks neither the certificate nor the host name and ignores the CA file,
  whether one is given or not; otherwise, with a CA file, the context verifies against
  that file; with neither, no context is passed and the platform's default applies.
\<close>

theorem context_of_every_connection:
  assumes "download env url timeout retries backoff cafile insecure w = (r, w')"
    and "Urlopen u t c \<in> set (new_events w w')"
  shows "u = url \<and> t = timeout
     \<and> (if insecure
        then c = Some \<lparr>check_hostname = False, verify_mode = CERT_NONE, ca_file = None\<rparr>
        else if truthy cafile
        then c = Some \<lparr>check_hostname = True, verify_mode = CERT_REQUIRED, ca_file = cafile\<rparr>
        else c = None)"
proof -
  from download_effects [OF assms(1)] obtain t' where
    t': "trace w' = trace w @ t'"
      "\<forall>ev \<in> set t'. (\<exists>ctx. make_ctx env cafile insecure = Inr ctx \<and> ev = Urlopen url timeout ctx)
                          \<or> (\<exists>d. ev = Sleep d)"
    by blast
  from t'(1) have "new_events w w' = t'" by (simp add: new_events_def)
  with assms(2) t'(2) obtain ctx where
    ctx: "make_ctx env cafile insecure = Inr ctx" "Urlopen u t c = Urlopen url timeout ctx"
    by fastforce
  from ctx(1) have "if insecure
        then ctx = Some \<lparr>check_hostname = False, verify_mode = CERT_NONE, ca_file = None\<rparr>
        else if truthy cafile
        then ctx = Some \<lparr>check_hostname = True, verify_mode = CERT_REQUIRED, ca_file = cafile\<rparr>
        else ctx = None"
    by (auto simp: make_ctx_def create_default_context_def split: if_splits option.splits sum.splits)
  with ctx(2) show ?thesis by simp
qed

theorem context_of_every_connection_witness:
  "download env_json URL 15 3 (3 / 2) (Some ''/etc/ca.pem'') True w0
     = (Inr (CHR ''{'' # CHR 0x22 # ''a'' @ CHR 0x22 # '': 1}''),
        \<lparr>calls = 1,
         trace = [Urlopen URL 15 (Some \<lparr>check_hostname = False, verify_mode = CERT_NONE, ca_file = None\<rparr>)],
         files = Map.empty\<rparr>)
   \<and> Urlopen URL 15 (Some \<lparr>check_hostname = False, verify_mode = CERT_NONE, ca_file = None\<rparr>)
       \<in> set (new_events w0 \<lparr>calls = 1,
         trace = [Urlopen URL 15 (Some \<lparr>check_hostname = False, verify_mode = CERT_NONE, ca_file = None\<rparr>)],
         files = Map.empty\<rparr>)"
proof -
  have d: "download env_json URL 15 3 (3 / 2) (Some ''/etc/ca.pem'') True w0
     = (Inr (CHR ''{'' # CHR 0x22 # ''a'' @ CHR 0x22 # '': 1}''),
        \<lparr>calls = 1,
         trace = [Urlopen URL 15 (Some \<lparr>check_hostname = False, verify_mode = CERT_NONE, ca_file = None\<rparr>)],
         files = Map.empty\<rparr>)"
    by (simp add: download_def make_ctx_def create_default_context_def download_loop.simps
          attempt_once_def emit_def env_json_def resp_json_def w0_def)
  have m: "Urlopen URL 15 (Some \<lparr>check_hostname = False, verify_mode = CERT_NONE, ca_file = None\<rparr>)
       \<in> set (new_events w0 \<lparr>calls = 1,
         trace = [Urlopen URL 15 (Some \<lparr>check_hostname = False, verify_mode = CERT_NONE, ca_file = None\<rparr>)],
         files = Map.empty\<rparr>)"
    by (simp add: new_events_def w0_def)
  from context_of_every_connection [OF d m] d m show ?thesis by simp
qed

subsection \<open>The status of a response\<close>

text \<open>
  C6, as the code has it: a response is a success exactly when its status is 200 (or it
  has no status attribute), and the attempt then returns what reading the body returns;
  with any other status, the other 2xx included, the attempt fails just as if
  \<^verbatim>\<open>urlopen\<close> had raised the \<^verbatim>\<open>HTTPError\<close> of that status.
\<close>

theorem only_status_200_succeeds:
  assumes "urlopen env (calls w) url timeout ctx = Returns resp"
  shows "(getattr (status resp) 200 = 200 \<longrightarrow>
            fst (attempt_once env url timeout ctx w) = read resp)
       \<and> (getattr (status resp) 200 \<noteq> 200 \<longrightarrow>
            attempt_once env url timeout ctx w
              = attempt_once
                  (env\<lparr>urlopen := (\<lambda>n u t c. Raises (HTTPError (getattr (status resp) 0)
                                                       (getattr (resp_reason resp) [])))\<rparr>)
                  url timeout ctx w)"
  using assms by (simp add: attempt_once_def)

theorem only_status_200_succeeds_witness:
  \<open>urlopen env_201 (calls w0) URL 15 None = Returns resp_201
   \<and> getattr (status resp_201) 200 \<noteq> 200
   \<and> attempt_once env_201 URL 15 None w0
       = attempt_once (env_201\<lparr>urlopen := (\<lambda>n u t c. Raises (HTTPError 201 ''Created''))\<rparr>)
           URL 15 None w0
   \<and> urlopen env_json (calls w0) URL 15 None = Returns resp_json
   \<and> getattr (status resp_json) 200 = 200
   \<and> fst (attempt_once env_json URL 15 None w0) = Inr ''{"a": 1}''\<close>
proof -
  have a: "urlopen env_201 (calls w0) URL 15 None = Returns resp_201"
    by (simp add: env_201_def)
  have b: "urlopen env_json (calls w0) URL 15 None = Returns resp_json"
    by (simp add: env_json_def)
  from only_status_200_succeeds [OF a] only_status_200_succeeds [OF b] a b show ?thesis
    by (simp add: resp_201_def resp_json_def)
qed

text \<open>A response with the 2xx status 201 and a body is not a success: the attempt, and
  the whole download, fail with an \<^verbatim>\<open>HTTPError\<close>.\<close>

theorem non_200_2xx_counterexample:
  "(200::int) \<le> 201 \<and> (201::int) < 300
   \<and> urlopen env_201 (calls w0) URL 15 None = Returns resp_201
   \<and> status resp_201 = Some 201 \<and> read resp_201 = Inr ''{}''
   \<and> fst (attempt_once env_201 URL 15 None w0) = Inl (HTTPError 201 ''Created'')
   \<and> fst (download env_201 URL 15 3 (3 / 2) None False w0) = Inl (HTTPError 201 ''Created'')"
  by (simp add: env_201_def resp_201_def attempt_once_def download_def make_ctx_def
        download_loop.simps emit_def)

section \<open>Properties of \<^verbatim>\<open>main\<close>\<close>

subsection \<open>The certificate-failure test\<close>

text \<open>\<open>str_in\<close> is the substring relation.\<close>

lemma str_in_iff: "str_in p s \<longleftrightarrow> (\<exists>a b. s = a @ p @ b)"
proof (induction s)
  case Nil
  then show ?case by auto
next
  case (Cons c cs)
  show ?case
  proof
    assume "str_in p (c # cs)"
    then consider "prefix p (c # cs)" | "str_in p cs" by auto
    then show "\<exists>a b. c # cs = a @ p @ b"
    proof cases
      case 1
      then obtain b where "c # cs = p @ b" by (auto simp: prefix_def)
      then have "c # cs = [] @ p @ b" by simp
      then show ?thesis by blast
    next
      case 2
      with Cons obtain a b where "cs = a @ p @ b" by blast
      then have "c # cs = (c # a) @ p @ b" by simp
      then show ?thesis by blast
    qed
  next
    assume "\<exists>a b. c # cs = a @ p @ b"
    then obtain a b where ab: "c # cs = a @ p @ b" by blast
    show "str_in p (c # cs)"
    proof (cases a)
      case Nil
      with ab have "prefix p (c # cs)" by (simp add: prefix_def)
      then show ?thesis by simp
    next
      case (Cons x a')
      with ab have "cs = a' @ p @ b" by simp
      with Cons.IH have "str_in p cs" by blast
      then show ?thesis by simp
    qed
  qed
qed

text \<open>
  C2, as the code has it: a failure counts as a certificate failure exactly when it is
  an \<^verbatim>\<open>ssl.SSLError\<close>, whatever its text, or a \<^verbatim>\<open>URLError\<close> (an \<^verbatim>\<open>HTTPError\<close>
  included) whose reason is truthy and contains \<^verbatim>\<open>CERTIFICATE_VERIFY_FAILED\<close> or
  \<^verbatim>\<open>certificate verify failed\<close> written exactly so. No other exception counts.
\<close>

theorem is_ssl_err_cases:
  "is_ssl_err (SSLError s)
   \<and> (is_ssl_err (URLError r) \<longleftrightarrow>
        truthy_reason r \<and>
        ((\<exists>a b. str_reason r = a @ ''CERTIFICATE_VERIFY_FAILED'' @ b) \<or>
         (\<exists>a b. str_reason r = a @ ''certificate verify failed'' @ b)))
   \<and> (is_ssl_err (HTTPError code msg) \<longleftrightarrow>
        msg \<noteq> [] \<and>
        ((\<exists>a b. msg = a @ ''CERTIFICATE_VERIFY_FAILED'' @ b) \<or>
         (\<exists>a b. msg = a @ ''certificate verify failed'' @ b)))
   \<and> \<not> is_ssl_err (TypeError s) \<and> \<not> is_ssl_err (ImportError s)
   \<and> \<not> is_ssl_err (OtherException s)"
proof -
  have 1: "is_ssl_err (SSLError s)" by (simp add: is_ssl_err_def)
  have 2: "is_ssl_err (URLError r) \<longleftrightarrow>
        truthy_reason r \<and>
        ((\<exists>a b. str_reason r = a @ ''CERTIFICATE_VERIFY_FAILED'' @ b) \<or>
         (\<exists>a b. str_reason r = a @ ''certificate verify failed'' @ b))"
    unfolding is_ssl_err_def str_in_iff by simp
  have 3: "is_ssl_err (HTTPError code msg) \<longleftrightarrow>
        msg \<noteq> [] \<and>
        ((\<exists>a b. msg = a @ ''CERTIFICATE_VERIFY_FAILED'' @ b) \<or>
         (\<exists>a b. msg = a @ ''certificate verify failed'' @ b))"
    unfolding is_ssl_err_def str_in_iff by simp
  have 4: "\<not> is_ssl_err (TypeError s)" "\<not> is_ssl_err (ImportError s)"
    "\<not> is_ssl_err (OtherException s)"
    by (simp_all add: is_ssl_err_def)
  from 1 2 3 4 show ?thesis by blast
qed

theorem is_ssl_err_cases_witness:
  "is_ssl_err (SSLError ''[SSL: WRONG_VERSION_NUMBER] wrong version number'')
   \<and> is_ssl_err (URLError (ErrorReason (''[SSL: '' @ ''CERTIFICATE_VERIFY_FAILED'' @ '']'')))
   \<and> is_ssl_err (HTTPError 495 ('''' @ ''certificate verify failed'' @ ''''))
   \<and> \<not> is_ssl_err (HTTPError 404 ''Not Found'')
   \<and> \<not> is_ssl_err (OtherException ''timed out'')"
proof -
  have 1: "is_ssl_err (SSLError ''[SSL: WRONG_VERSION_NUMBER] wrong version number'')"
    using is_ssl_err_cases by blast
  have 2: "is_ssl_err (URLError (ErrorReason (''[SSL: '' @ ''CERTIFICATE_VERIFY_FAILED'' @ '']'')))"
    using is_ssl_err_cases [of _ "ErrorReason (''[SSL: '' @ ''CERTIFICATE_VERIFY_FAILED'' @ '']'')"]
    by (metis str_reason.simps(3) truthy_reason.simps(3))
  have 3: "is_ssl_err (HTTPError 495 ('''' @ ''certificate verify failed'' @ ''''))"
    using is_ssl_err_cases [of _ _ 495 "'''' @ ''certificate verify failed'' @ ''''"]
    by (metis append_is_Nil_conv list.distinct(1))
  have 4: "\<not> is_ssl_err (HTTPError 404 ''Not Found'')" by code_simp
  have 5: "\<not> is_ssl_err (OtherException ''timed out'')"
    using is_ssl_err_cases by blast
  from 1 2 3 4 5 show ?thesis by blast
qed

text \<open>The specification's rule and the script's test differ both ways: a
  \<^verbatim>\<open>URLError\<close> whose reason spells the signature in another letter case is not
  detected, and an \<^verbatim>\<open>SSLError\<close> that has nothing to do with verification is.\<close>

theorem classifier_counterexample:
  "spec_certificate_verification_failure (URLError (ErrorReason ''Certificate Verify Failed''))
   \<and> \<not> is_ssl_err (URLError (ErrorReason ''Certificate Verify Failed''))
   \<and> is_ssl_err (SSLError ''[SSL: WRONG_VERSION_NUMBER] wrong version number (_ssl.c:1000)'')
   \<and> \<not> spec_certificate_verification_failure
         (SSLError ''[SSL: WRONG_VERSION_NUMBER] wrong version number (_ssl.c:1000)'')"
  by code_simp

subsection \<open>Auxiliary facts\<close>

lemma main_save_effects:
  assumes "main_save env outpath raw w = (code, w')"
  shows "calls w' = calls w \<and>
     (\<exists>m. trace w' = trace w @ [m] \<and> m \<noteq> Stderr Retrying_with_certifi)"
  using assms
  by (auto simp: main_save_def emit_def split: sum.splits write_outcome.splits)

lemma download_adds:
  assumes "download env url timeout retries backoff cafile insecure w = (r, w1)"
  obtains t where "trace w1 = trace w @ t" "Stderr Retrying_with_certifi \<notin> set t"
    "calls w1 = calls w + attempts t" "attempts t \<le> nat retries"
proof -
  from download_effects [OF assms] obtain t where
    t: "trace w1 = trace w @ t"
      "\<forall>ev \<in> set t. (\<exists>ctx. make_ctx env cafile insecure = Inr ctx \<and> ev = Urlopen url timeout ctx)
                          \<or> (\<exists>d. ev = Sleep d)"
      "calls w1 = calls w + attempts t" "attempts t \<le> nat retries"
    by blast
  from t(2) have "Stderr Retrying_with_certifi \<notin> set t" by auto
  with t(1,3,4) that show thesis by blast
qed

lemma main_fetch_code:
  "fst (main_fetch env a w) = Inl c \<Longrightarrow> c = 2"
  by (auto simp: main_fetch_def split: prod.splits sum.splits if_splits option.splits)

text \<open>Some runs, evaluated.\<close>

lemma dumps_example: \<open>json_dumps 2 0 (JObj [(''a'', JInt 1)]) = ''{\<newline>  "a": 1\<newline>}''\<close>
  by code_simp

lemma cert_error_is_ssl_err: "is_ssl_err cert_error"
  by code_simp

lemma run_json:
  \<open>main env_json args_default w0 =
     (0, \<lparr>calls = 1,
          trace = [Urlopen URL 15 None, Stdout (Saved ''known_exploited_vulnerabilities.json'')],
          files = [''known_exploited_vulnerabilities.json'' \<mapsto> ''{\<newline>  "a": 1\<newline>}'']\<rparr>)\<close>
  by (simp add: main_def main_fetch_def main_save_def download_def make_ctx_def
        download_loop.simps attempt_once_def emit_def env_json_def env_base_def resp_json_def
        args_default_def w0_def path_exists_def dumps_example del: json_dumps.simps)

lemma run_cert_primary:
  "download env_cert URL 15 2 (3 / 2) None False w0 =
     (Inl cert_error,
      \<lparr>calls = 2, trace = [Urlopen URL 15 None, Sleep (3 / 2), Urlopen URL 15 None],
       files = Map.empty\<rparr>)"
  by (simp add: download_def make_ctx_def download_loop.simps attempt_once_def emit_def
        env_cert_def env_base_def w0_def cert_error_def)

lemma run_cert_fallback:
  "download env_cert URL 15 2 (3 / 2) (Some ''/site-packages/certifi/cacert.pem'') False
      \<lparr>calls = 2,
       trace = [Urlopen URL 15 None, Sleep (3 / 2), Urlopen URL 15 None,
                Stderr Retrying_with_certifi],
       files = Map.empty\<rparr> =
     (read resp_json,
      \<lparr>calls = 3,
       trace = [Urlopen URL 15 None, Sleep (3 / 2), Urlopen URL 15 None,
                Stderr Retrying_with_certifi, Urlopen URL 15 certifi_ctx],
       files = Map.empty\<rparr>)"
  by (simp add: download_def make_ctx_def create_default_context_def download_loop.simps
        attempt_once_def emit_def env_cert_def env_base_def resp_json_def certifi_ctx_def)

lemma run_cert:
  \<open>main env_cert (args_default\<lparr>args_retries := 2\<rparr>) w0 =
     (0, \<lparr>calls = 3,
          trace = [Urlopen URL 15 None, Sleep (3 / 2), Urlopen URL 15 None,
                   Stderr Retrying_with_certifi, Urlopen URL 15 certifi_ctx,
                   Stdout (Saved ''known_exploited_vulnerabilities.json'')],
          files = [''known_exploited_vulnerabilities.json'' \<mapsto> ''{\<newline>  "a": 1\<newline>}'']\<rparr>)\<close>
proof -
  have a: "args_retries (args_default\<lparr>args_retries := 2\<rparr>) = 2"
    "args_cafile (args_default\<lparr>args_retries := 2\<rparr>) = None"
    "args_insecure (args_default\<lparr>args_retries := 2\<rparr>) = False"
    "args_force (args_default\<lparr>args_retries := 2\<rparr>) = False"
    "args_output (args_default\<lparr>args_retries := 2\<rparr>) = ''known_exploited_vulnerabilities.json''"
    by (simp_all add: args_default_def)
  have c: "certifi_where env_cert = Some ''/site-packages/certifi/cacert.pem''"
    "decode_utf8 env_cert = Inr" "write_file env_cert = (\<lambda>p s. Written)"
    \<open>json_loads env_cert ''{"a": 1}'' = Inr (JObj [(''a'', JInt 1)])\<close>
    by (simp_all add: env_cert_def env_base_def)
  have p: "path_exists w0 p = False" for p by (simp add: path_exists_def w0_def)
  show ?thesis
    unfolding main_def main_fetch_def a p
    by (simp add: run_cert_primary cert_error_is_ssl_err run_cert_fallback main_save_def c
          resp_json_def dumps_example emit_def del: json_dumps.simps)
qed

lemma run_cert_two:
  \<open>main env_cert args_two w0 =
     (0, \<lparr>calls = 3,
          trace = [Urlopen URL 15 None, Sleep (3 / 2), Urlopen URL 15 None,
                   Stderr Retrying_with_certifi, Urlopen URL 15 certifi_ctx,
                   Stdout (Saved ''known_exploited_vulnerabilities.json'')],
          files = [''known_exploited_vulnerabilities.json'' \<mapsto> ''{\<newline>  "a": 1\<newline>}'']\<rparr>)\<close>
  unfolding args_two_def by (rule run_cert)

lemma fetch_json: \<open>fst (main_fetch env_json args_default w) = Inr ''{"a": 1}''\<close>
  by (simp add: main_fetch_def download_def make_ctx_def download_loop.simps attempt_once_def
        env_json_def resp_json_def args_default_def)

lemma fetch_readonly: \<open>fst (main_fetch env_readonly args_default w) = Inr ''{"a": 1}''\<close>
  by (simp add: main_fetch_def download_def make_ctx_def download_loop.simps attempt_once_def
        env_readonly_def env_json_def resp_json_def args_default_def)

lemma fetch_html: \<open>fst (main_fetch env_html args_default w) = Inr ''<html>''\<close>
  by (simp add: main_fetch_def download_def make_ctx_def download_loop.simps attempt_once_def
        env_html_def args_default_def)

lemma fetch_5xx: \<open>fst (main_fetch env_5xx args_default w0) = Inl 2\<close>
proof -
  have n: "\<not> is_ssl_err (HTTPError c ''Server Error'')" for c by code_simp
  show ?thesis
    by (simp add: main_fetch_def download_def make_ctx_def download_loop.simps attempt_once_def
        env_5xx_def args_default_def n w0_def emit_def)
qed

lemma env_json_fields:
  "decode_utf8 env_json = Inr"
  \<open>json_loads env_json ''{"a": 1}'' = Inr (JObj [(''a'', JInt 1)])\<close>
  "write_file env_json p s = Written"
  by (simp_all add: env_json_def env_base_def)

lemma env_readonly_fields:
  "decode_utf8 env_readonly = Inr"
  \<open>json_loads env_readonly ''{"a": 1}'' = Inr (JObj [(''a'', JInt 1)])\<close>
  "write_file env_readonly p s = OpenFailed (OtherException ''Permission denied'')"
  by (simp_all add: env_readonly_def env_json_def env_base_def)

lemma env_html_fields:
  "decode_utf8 env_html = Inr"
  "json_loads env_html ''<html>'' = Inl (OtherException ''JSONDecodeError'')"
  by (simp_all add: env_html_def env_base_def)

subsection \<open>The certifi fallback\<close>

text \<open>
  C1: in a run that passes the destination guard, the fallback is announced at most
  once, and it is announced exactly when the first download failed with an error that
  \<open>is_ssl_err\<close> accepts, neither \<^verbatim>\<open>--insecure\<close> nor \<^verbatim>\<open>--cafile\<close> was given, and
  certifi is installed. The run then makes one more call of \<^verbatim>\<open>download\<close>, with the
  same retry count and the certifi bundle, and no connection after it. Without the
  fallback no connection is made after the first download; in particular a failure that
  \<open>is_ssl_err\<close> rejects ends the run with exit code 2 right after its message.
\<close>

theorem fallback_only_on_certificate_failure:
  assumes guard: "\<not> (path_exists w (args_output a) \<and> \<not> args_force a)"
    and prim: "download env URL 15 (args_retries a) (3 / 2) (args_cafile a) (args_insecure a) w
                 = (r1, w1)"
    and run: "main env a w = (code, w')"
  shows "count_list (new_events w w') (Stderr Retrying_with_certifi) \<le> 1
     \<and> (Stderr Retrying_with_certifi \<in> set (new_events w w') \<longleftrightarrow>
          (\<exists>e. r1 = Inl e \<and> is_ssl_err e) \<and> \<not> args_insecure a \<and> \<not> truthy (args_cafile a)
          \<and> certifi_where env \<noteq> None)
     \<and> (Stderr Retrying_with_certifi \<in> set (new_events w w') \<longrightarrow>
          (\<exists>p r2 w2. certifi_where env = Some p
             \<and> download env URL 15 (args_retries a) (3 / 2) (Some p) False
                 (emit (Stderr Retrying_with_certifi) w1) = (r2, w2)
             \<and> calls w' = calls w2))
     \<and> (Stderr Retrying_with_certifi \<notin> set (new_events w w') \<longrightarrow> calls w' = calls w1)
     \<and> (\<forall>e. r1 = Inl e \<and> \<not> is_ssl_err e \<longrightarrow>
          code = 2 \<and> w' = emit (Stderr (Failed_to_download URL e)) w1)
     \<and> calls w' \<le> calls w + 2 * nat (args_retries a)"
proof -
  let ?M = "Stderr Retrying_with_certifi"
  have nb: "(path_exists w (args_output a) \<and> \<not> args_force a) = False"
    using guard by blast
  have run': "(case main_fetch env a w of
                 (Inl code, w') \<Rightarrow> (code, w')
               | (Inr raw, w') \<Rightarrow> main_save env (args_output a) raw w') = (code, w')"
    using run unfolding main_def nb by simp
  let ?ok = "\<lambda>e. is_ssl_err e \<and> \<not> args_insecure a \<and> \<not> truthy (args_cafile a)"
  from prim obtain t1 where
    t1: "trace w1 = trace w @ t1" "?M \<notin> set t1"
      "calls w1 = calls w + attempts t1" "attempts t1 \<le> nat (args_retries a)"
    by (rule download_adds)
  show ?thesis
  proof (cases r1)
    case (Inr raw)
    with prim run' have "main_save env (args_output a) raw w1 = (code, w')"
      by (simp add: main_fetch_def)
    from main_save_effects [OF this] obtain m where
      m: "calls w' = calls w1" "trace w' = trace w1 @ [m]" "m \<noteq> ?M"
      by blast
    from m(2) t1(1) have ne: "new_events w w' = t1 @ [m]" by (simp add: new_events_def)
    have nm: "?M \<notin> set (new_events w w')" using t1(2) m(3) by (simp add: ne)
    have cnt: "count_list (new_events w w') ?M = 0" using nm by (simp add: count_list_0_iff)
    have F: "calls w' \<le> calls w + 2 * nat (args_retries a)" using m(1) t1(3,4) by simp
    show ?thesis
      using Inr nm cnt m(1) F by auto
  next
    case (Inl e)
    show ?thesis
    proof (cases "?ok e")
      case False
      with Inl prim run'
      have res: "code = 2" "w' = emit (Stderr (Failed_to_download URL e)) w1"
        by (auto simp: main_fetch_def)
      from res(2) t1(1) have ne: "new_events w w' = t1 @ [Stderr (Failed_to_download URL e)]"
        by (simp add: new_events_def emit_def)
      have c: "calls w' = calls w1" using res(2) by (simp add: emit_def)
      have E: "\<forall>e'. r1 = Inl e' \<and> \<not> is_ssl_err e' \<longrightarrow>
          code = 2 \<and> w' = emit (Stderr (Failed_to_download URL e')) w1"
        using Inl res by simp
      have B: "\<not> ((\<exists>e. r1 = Inl e \<and> is_ssl_err e) \<and> \<not> args_insecure a
                  \<and> \<not> truthy (args_cafile a) \<and> certifi_where env \<noteq> None)"
        using Inl False by auto
      have nm: "?M \<notin> set (new_events w w')" using t1(2) by (simp add: ne)
      have cnt: "count_list (new_events w w') ?M = 0" using nm by (simp add: count_list_0_iff)
      have F: "calls w' \<le> calls w + 2 * nat (args_retries a)" using c t1(3,4) by simp
      show ?thesis
        using E B nm cnt c F by auto
    next
      case True
      show ?thesis
      proof (cases "certifi_where env")
        case None
        with True Inl prim run'
        have res: "code = 2"
          "w' = emit (Stderr (Original_error e))
                  (emit (Stderr (Failed_certifi_fallback (ImportError ''certifi''))) w1)"
          by (auto simp: main_fetch_def)
        from res(2) t1(1)
        have ne: "new_events w w' = t1 @ [Stderr (Failed_certifi_fallback (ImportError ''certifi'')),
                                          Stderr (Original_error e)]"
          by (simp add: new_events_def emit_def)
        have c: "calls w' = calls w1" using res(2) by (simp add: emit_def)
        have E: "\<forall>e'. r1 = Inl e' \<and> \<not> is_ssl_err e' \<longrightarrow>
            code = 2 \<and> w' = emit (Stderr (Failed_to_download URL e')) w1"
          using Inl True by simp
        have nm: "?M \<notin> set (new_events w w')" using t1(2) by (simp add: ne)
        have cnt: "count_list (new_events w w') ?M = 0" using nm by (simp add: count_list_0_iff)
        have F: "calls w' \<le> calls w + 2 * nat (args_retries a)" using c t1(3,4) by simp
        show ?thesis
          using E None nm cnt c F by auto
      next
        case (Some p)
        obtain r2 w2 where
          fb: "download env URL 15 (args_retries a) (3 / 2) (Some p) False (emit ?M w1) = (r2, w2)"
          by (cases "download env URL 15 (args_retries a) (3 / 2) (Some p) False (emit ?M w1)")
        from fb obtain t2 where
          t2: "trace w2 = trace (emit ?M w1) @ t2" "?M \<notin> set t2"
            "calls w2 = calls (emit ?M w1) + attempts t2" "attempts t2 \<le> nat (args_retries a)"
          by (rule download_adds)
        have tw2: "trace w2 = trace w @ t1 @ [?M] @ t2" using t2(1) t1(1) by (simp add: emit_def)
        have cw2: "calls w2 \<le> calls w + 2 * nat (args_retries a)"
          using t2(3,4) t1(3,4) by (simp add: emit_def)
        have "\<exists>tl. new_events w w' = t1 @ [?M] @ t2 @ tl \<and> ?M \<notin> set tl \<and> calls w' = calls w2"
        proof (cases r2)
          case (Inr raw)
          with Some True Inl prim run' fb
          have "main_save env (args_output a) raw w2 = (code, w')"
            by (simp add: main_fetch_def)
          from main_save_effects [OF this] obtain m where
            m: "calls w' = calls w2" "trace w' = trace w2 @ [m]" "m \<noteq> ?M"
            by blast
          from m(2) tw2 have "new_events w w' = t1 @ [?M] @ t2 @ [m]" by (simp add: new_events_def)
          with m(1,3) show ?thesis by auto
        next
          case (Inl e2)
          with Some True \<open>r1 = Inl e\<close> prim run' fb
          have "w' = emit (Stderr (Original_error e)) (emit (Stderr (Failed_certifi_fallback e2)) w2)"
            by (simp add: main_fetch_def)
          then have "new_events w w' = t1 @ [?M] @ t2 @ [Stderr (Failed_certifi_fallback e2),
                                                       Stderr (Original_error e)]"
            "calls w' = calls w2"
            using tw2 by (simp_all add: new_events_def emit_def)
          then show ?thesis by auto
        qed
        then obtain tl where
          tl: "new_events w w' = t1 @ [?M] @ t2 @ tl" "?M \<notin> set tl" "calls w' = calls w2"
          by blast
        have cnt: "count_list (new_events w w') ?M = 1"
          using t1(2) t2(2) tl(2) by (simp add: tl(1))
        have mem: "?M \<in> set (new_events w w')" by (simp add: tl(1))
        have E: "\<forall>e'. r1 = Inl e' \<and> \<not> is_ssl_err e' \<longrightarrow>
            code = 2 \<and> w' = emit (Stderr (Failed_to_download URL e')) w1"
          using Inl True by simp
        have B: "(\<exists>e. r1 = Inl e \<and> is_ssl_err e) \<and> \<not> args_insecure a
                  \<and> \<not> truthy (args_cafile a) \<and> certifi_where env \<noteq> None"
          using Inl True Some by simp
        have C: "\<exists>p r2 w2. certifi_where env = Some p
             \<and> download env URL 15 (args_retries a) (3 / 2) (Some p) False
                 (emit (Stderr Retrying_with_certifi) w1) = (r2, w2)
             \<and> calls w' = calls w2"
          using Some fb tl(3) by blast
        have F: "calls w' \<le> calls w + 2 * nat (args_retries a)" using cw2 tl(3) by simp
        show ?thesis
          using E B C F cnt mem by auto
      qed
    qed
  qed
qed

theorem fallback_only_on_certificate_failure_witness:
  \<open>\<not> (path_exists w0 (args_output args_two) \<and> \<not> args_force args_two)
   \<and> download env_cert URL 15 (args_retries args_two) (3 / 2) (args_cafile args_two)
        (args_insecure args_two) w0
       = (Inl cert_error,
          \<lparr>calls = 2, trace = [Urlopen URL 15 None, Sleep (3 / 2), Urlopen URL 15 None],
           files = Map.empty\<rparr>)
   \<and> fst (main env_cert args_two w0) = 0
   \<and> count_list (new_events w0 (snd (main env_cert args_two w0))) (Stderr Retrying_with_certifi) = 1
   \<and> calls (snd (main env_cert args_two w0)) = 3\<close>
proof -
  have g: "\<not> (path_exists w0 (args_output args_two) \<and> \<not> args_force args_two)"
    by (simp add: path_exists_def w0_def)
  have d: "download env_cert URL 15 (args_retries args_two) (3 / 2) (args_cafile args_two)
        (args_insecure args_two) w0
       = (Inl cert_error,
          \<lparr>calls = 2, trace = [Urlopen URL 15 None, Sleep (3 / 2), Urlopen URL 15 None],
           files = Map.empty\<rparr>)"
    using run_cert_primary by (simp add: args_two_def args_default_def)
  have m: "main env_cert args_two w0 = (fst (main env_cert args_two w0), snd (main env_cert args_two w0))"
    by simp
  have mem: "Stderr Retrying_with_certifi \<in> set (new_events w0 (snd (main env_cert args_two w0)))"
  proof -
    have "trace w0 = []" by (simp add: w0_def)
    then show ?thesis by (simp add: run_cert_two new_events_def)
  qed
  from fallback_only_on_certificate_failure [OF g d m] mem
  have "count_list (new_events w0 (snd (main env_cert args_two w0))) (Stderr Retrying_with_certifi) \<le> 1"
    by blast
  moreover have "count_list (new_events w0 (snd (main env_cert args_two w0))) (Stderr Retrying_with_certifi) \<noteq> 0"
    using mem by (simp add: count_list_0_iff)
  ultimately have c: "count_list (new_events w0 (snd (main env_cert args_two w0))) (Stderr Retrying_with_certifi) = 1"
    by linarith
  show ?thesis
    using g d c by (simp add: run_cert_two)
qed

subsection \<open>The destination guard\<close>

text \<open>
  C8: when the output path exists and \<^verbatim>\<open>--force\<close> is absent, the run exits with
  code 1; all it does is print the error message: it opens no connection and leaves
  every file as it was.
\<close>

theorem destination_exists_guard:
  assumes "path_exists w (args_output a)" and "\<not> args_force a"
  shows "fst (main env a w) = 1
     \<and> new_events w (snd (main env a w)) = [Stderr (Already_exists (args_output a))]
     \<and> calls (snd (main env a w)) = calls w
     \<and> files (snd (main env a w)) = files w"
  using assms by (simp add: main_def emit_def new_events_def)

theorem destination_exists_guard_witness:
  "path_exists w_existing (args_output args_default) \<and> \<not> args_force args_default
   \<and> fst (main env_json args_default w_existing) = 1
   \<and> new_events w_existing (snd (main env_json args_default w_existing))
       = [Stderr (Already_exists ''known_exploited_vulnerabilities.json'')]
   \<and> calls (snd (main env_json args_default w_existing)) = 0
   \<and> files (snd (main env_json args_default w_existing)) ''known_exploited_vulnerabilities.json''
       = Some ''old''"
proof -
  have h: "path_exists w_existing (args_output args_default)" "\<not> args_force args_default"
    by (simp_all add: path_exists_def w_existing_def args_default_def)
  from destination_exists_guard [OF h, of env_json] h show ?thesis
    by (simp add: w_existing_def args_default_def w0_def)
qed

subsection \<open>Exit codes\<close>

text \<open>
  C3: the exit code is 1 when the destination exists and \<^verbatim>\<open>--force\<close> is absent;
  otherwise 2 when the first \<^verbatim>\<open>try\<close> yields no bytes; otherwise 3 when the bytes do
  not decode as UTF-8 or do not parse as JSON; otherwise 4 when writing the file fails;
  otherwise 0. No other code occurs. The first \<^verbatim>\<open>try\<close> yields no bytes exactly when
  the first download failed and either no fallback was due, or certifi is missing, or
  the fallback download failed too.
\<close>

theorem exit_code_table:
  "fst (main env a w) =
     (if path_exists w (args_output a) \<and> \<not> args_force a then 1
      else case fst (main_fetch env a w) of
             Inl code \<Rightarrow> 2
           | Inr raw \<Rightarrow>
               (case decode_utf8 env raw of
                  Inl e \<Rightarrow> 3
                | Inr text \<Rightarrow>
                    (case json_loads env text of
                       Inl e \<Rightarrow> 3
                     | Inr parsed \<Rightarrow>
                         (case write_file env (args_output a) (json_dumps 2 0 parsed) of
                            Written \<Rightarrow> 0
                          | OpenFailed e \<Rightarrow> 4
                          | WriteFailed e partial \<Rightarrow> 4))))
   \<and> fst (main env a w) \<in> {0, 1, 2, 3, 4}
   \<and> (isl (fst (main_fetch env a w)) \<longleftrightarrow>
        (\<exists>e w1. download env URL 15 (args_retries a) (3 / 2) (args_cafile a) (args_insecure a) w
                  = (Inl e, w1)
           \<and> (\<not> (is_ssl_err e \<and> \<not> args_insecure a \<and> \<not> truthy (args_cafile a))
              \<or> certifi_where env = None
              \<or> (\<exists>p. certifi_where env = Some p
                   \<and> isl (fst (download env URL 15 (args_retries a) (3 / 2) (Some p) False
                                (emit (Stderr Retrying_with_certifi) w1)))))))"
proof -
  have eq: "fst (main env a w) =
     (if path_exists w (args_output a) \<and> \<not> args_force a then 1
      else case fst (main_fetch env a w) of
             Inl code \<Rightarrow> 2
           | Inr raw \<Rightarrow>
               (case decode_utf8 env raw of
                  Inl e \<Rightarrow> 3
                | Inr text \<Rightarrow>
                    (case json_loads env text of
                       Inl e \<Rightarrow> 3
                     | Inr parsed \<Rightarrow>
                         (case write_file env (args_output a) (json_dumps 2 0 parsed) of
                            Written \<Rightarrow> 0
                          | OpenFailed e \<Rightarrow> 4
                          | WriteFailed e partial \<Rightarrow> 4))))"
  proof (cases "path_exists w (args_output a) \<and> \<not> args_force a")
    case True
    then show ?thesis by (simp add: main_def)
  next
    case False
    obtain r w' where f: "main_fetch env a w = (r, w')" by (cases "main_fetch env a w")
    show ?thesis
    proof (cases r)
      case (Inl c)
      with f have "c = 2" using main_fetch_code [of env a w c] by simp
      with False f Inl show ?thesis by (simp add: main_def)
    next
      case (Inr raw)
      with False f show ?thesis
        by (simp add: main_def main_save_def split: sum.splits write_outcome.splits)
    qed
  qed
  have mem: "fst (main env a w) \<in> {0, 1, 2, 3, 4}"
    unfolding eq by (simp split: sum.splits write_outcome.splits)
  have fail: "isl (fst (main_fetch env a w)) \<longleftrightarrow>
        (\<exists>e w1. download env URL 15 (args_retries a) (3 / 2) (args_cafile a) (args_insecure a) w
                  = (Inl e, w1)
           \<and> (\<not> (is_ssl_err e \<and> \<not> args_insecure a \<and> \<not> truthy (args_cafile a))
              \<or> certifi_where env = None
              \<or> (\<exists>p. certifi_where env = Some p
                   \<and> isl (fst (download env URL 15 (args_retries a) (3 / 2) (Some p) False
                                (emit (Stderr Retrying_with_certifi) w1))))))"
    by (auto simp: main_fetch_def split: prod.splits sum.splits option.splits)
  from eq mem fail show ?thesis by blast
qed

theorem exit_code_table_witness:
  "fst (main env_json args_default w0) = 0
   \<and> fst (main env_json args_default w_existing) = 1
   \<and> fst (main env_5xx args_default w0) = 2
   \<and> fst (main env_html args_default w0) = 3
   \<and> fst (main env_readonly args_default w0) = 4"
proof -
  have p0: "\<not> path_exists w0 p" for p by (simp add: path_exists_def w0_def)
  have p1: "path_exists w_existing (args_output args_default)" "\<not> args_force args_default"
    by (simp_all add: path_exists_def w_existing_def args_default_def)
  have 0: "fst (main env_json args_default w0) = 0"
    using exit_code_table [of env_json args_default w0]
    by (simp add: p0 fetch_json env_json_fields del: json_dumps.simps)
  have 1: "fst (main env_json args_default w_existing) = 1"
    using exit_code_table [of env_json args_default w_existing] p1 by simp
  have 2: "fst (main env_5xx args_default w0) = 2"
    using exit_code_table [of env_5xx args_default w0] by (simp add: p0 fetch_5xx)
  have 3: "fst (main env_html args_default w0) = 3"
    using exit_code_table [of env_html args_default w0]
    by (simp add: p0 fetch_html env_html_fields)
  have 4: "fst (main env_readonly args_default w0) = 4"
    using exit_code_table [of env_readonly args_default w0]
    by (simp add: p0 fetch_readonly env_readonly_fields del: json_dumps.simps)
  from 0 1 2 3 4 show ?thesis by blast
qed

subsection \<open>The output file\<close>

text \<open>
  C7, as the code has it: after a successful run the output file holds exactly what
  \<^verbatim>\<open>json.dump\<close> with \<^verbatim>\<open>indent=2\<close> and \<^verbatim>\<open>ensure_ascii=False\<close> writes for the parsed
  value of the downloaded bytes, and nothing after it: no trailing newline. For the
  object \<^verbatim>\<open>{"a": 1}\<close> that is an opening brace, a line with two spaces and the member,
  and a closing brace on its own line. Bytes of non-ASCII characters are written as they
  are.
\<close>

theorem saved_file_is_json_dump:
  assumes "main env a w = (0, w')"
  shows \<open>(\<exists>raw text parsed.
            fst (main_fetch env a w) = Inr raw \<and> decode_utf8 env raw = Inr text
            \<and> json_loads env text = Inr parsed
            \<and> files w' (args_output a) = Some (json_dumps 2 0 parsed))
     \<and> json_dumps 2 0 (JObj [(''a'', JInt 1)]) = ''{\<newline>  "a": 1\<newline>}''
     \<and> (\<forall>c. 128 \<le> (of_char c :: nat) \<longrightarrow> escape_char c = [c])\<close>
proof -
  have plain: "\<forall>c. 128 \<le> (of_char c :: nat) \<longrightarrow> escape_char c = [c]"
    unfolding escape_char_def by auto
  have "\<exists>raw text parsed.
            fst (main_fetch env a w) = Inr raw \<and> decode_utf8 env raw = Inr text
            \<and> json_loads env text = Inr parsed
            \<and> files w' (args_output a) = Some (json_dumps 2 0 parsed)"
  proof -
    have nb: "(path_exists w (args_output a) \<and> \<not> args_force a) = False"
      using assms by (auto simp: main_def split: if_splits)
    obtain r w1 where f: "main_fetch env a w = (r, w1)" by (cases "main_fetch env a w")
    show ?thesis
    proof (cases r)
      case (Inl c)
      with f have "c = 2" using main_fetch_code [of env a w c] by simp
      with Inl f assms show ?thesis unfolding main_def nb by simp
    next
      case (Inr raw)
      with f assms have s: "main_save env (args_output a) raw w1 = (0, w')"
        unfolding main_def nb by simp
      then show ?thesis
        using f Inr
        by (auto simp: main_save_def emit_def split: sum.splits write_outcome.splits
              simp del: json_dumps.simps)
    qed
  qed
  with plain dumps_example show ?thesis by blast
qed

theorem saved_file_is_json_dump_witness:
  \<open>main env_json args_default w0 =
     (0, \<lparr>calls = 1,
          trace = [Urlopen URL 15 None, Stdout (Saved ''known_exploited_vulnerabilities.json'')],
          files = [''known_exploited_vulnerabilities.json'' \<mapsto> ''{\<newline>  "a": 1\<newline>}'']\<rparr>)
   \<and> (\<exists>raw text parsed.
            fst (main_fetch env_json args_default w0) = Inr raw
            \<and> decode_utf8 env_json raw = Inr text
            \<and> json_loads env_json text = Inr parsed
            \<and> files \<lparr>calls = 1,
          trace = [Urlopen URL 15 None, Stdout (Saved ''known_exploited_vulnerabilities.json'')],
          files = [''known_exploited_vulnerabilities.json'' \<mapsto> ''{\<newline>  "a": 1\<newline>}'']\<rparr>
                 (args_output args_default) = Some (json_dumps 2 0 parsed))\<close>
  using saved_file_is_json_dump [OF run_json] run_json by blast

text \<open>The body \<^verbatim>\<open>{"a": 1}\<close> is saved without a newline at the end.\<close>

theorem trailing_newline_counterexample:
  \<open>fst (main env_json args_default w0) = 0
   \<and> urlopen env_json 0 URL 15 None = Returns resp_json
   \<and> read resp_json = Inr ''{"a": 1}''
   \<and> files (snd (main env_json args_default w0)) ''known_exploited_vulnerabilities.json''
       = Some ''{\<newline>  "a": 1\<newline>}''
   \<and> files (snd (main env_json args_default w0)) ''known_exploited_vulnerabilities.json''
       \<noteq> Some ''{\<newline>  "a": 1\<newline>}\<newline>''\<close>
proof -
  have 1: "urlopen env_json 0 URL 15 None = Returns resp_json" by (simp add: env_json_def)
  have 2: \<open>read resp_json = Inr ''{"a": 1}''\<close> by (simp add: resp_json_def)
  show ?thesis using 1 2 by (simp add: run_json)
qed

end
